theory Spec2Isabelle
  imports Main
begin

section \<open>Authentication and session-integrity core of the membership portal\<close>

text \<open>
  The development embeds the user model (\<open>models/User\<close>), the token helpers and the
  request gate (\<open>middleware/auth.js\<close>), and the handlers of \<open>routes/auth.js\<close> and of
  \<open>POST /change-password\<close> in \<open>routes/user.js\<close>.

  Conventions.
  \<^item> Time is the value of \<open>Date.now()\<close>, milliseconds since the epoch, a \<open>nat\<close>. A handler
    reads the clock once: every \<open>Date.now()\<close> and \<open>new Date()\<close> of one request is the
    argument \<open>now\<close>.
  \<^item> A handler runs from its query to its last write without another request in between.
  \<^item> The collection is the list of its documents in natural order. \<open>_id\<close> is the primary
    key of a MongoDB collection, so "the document with this \<open>_id\<close>" is every element
    carrying it.
  \<^item> A thrown exception is \<open>Inl\<close>, a response sent with \<open>res.json\<close> is \<open>Inr\<close>.
  \<^item> The route validators have run before a handler, and the stored documents satisfy the
    schema, so that \<open>save\<close> does not fail validation.
\<close>

subsection \<open>The libraries: jsonwebtoken and bcryptjs\<close>

text \<open>
  Both libraries are external. They are modelled symbolically: a signed token is the term
  of its signing key, its claims and its validity window, and a hash is the term of its
  salt and its input. Two tokens are the same string exactly when they are the same term
  (HMAC signing is deterministic).
\<close>

type_synonym uid = nat
type_synonym time = nat

datatype payload = Payload (userId: "uid option") (token_type: "string option") (timestamp: "time option")

datatype jwt = Jwt (signing_key: string) (claims: payload) (iat: nat) (exp: nat) | NotJwt string

datatype exn = AppError string nat | JsonWebTokenError | TokenExpiredError | Error string

text \<open>\<open>jwt.sign(payload, secret, {expiresIn})\<close>: \<open>iat\<close> and \<open>exp\<close> are in seconds.\<close>

definition jwt_sign :: "payload \<Rightarrow> string \<Rightarrow> nat \<Rightarrow> time \<Rightarrow> jwt" where
  "jwt_sign p secret expiresIn now = Jwt secret p (now div 1000) (now div 1000 + expiresIn)"

text \<open>\<open>jwt.verify(token, secret)\<close>: the signature is checked before the expiry.\<close>

definition jwt_verify :: "jwt \<Rightarrow> string \<Rightarrow> time \<Rightarrow> exn + payload" where
  "jwt_verify tok secret now =
     (case tok of
        NotJwt s \<Rightarrow> Inl JsonWebTokenError
      | Jwt k p i e \<Rightarrow>
          if k \<noteq> secret then Inl JsonWebTokenError
          else if now div 1000 \<ge> e then Inl TokenExpiredError
          else Inr p)"

text \<open>
  A string field that holds a password: the plaintext of a request body, or what
  \<open>bcrypt.hash\<close> returned for a salt and an input.
\<close>

datatype pwstring = Plain string | Bcrypt "nat \<times> nat" pwstring

definition bcrypt_genSalt :: "nat \<Rightarrow> nat \<Rightarrow> nat \<times> nat" where
  "bcrypt_genSalt rounds rnd = (rounds, rnd)"

definition bcrypt_hash :: "pwstring \<Rightarrow> nat \<times> nat \<Rightarrow> pwstring" where
  "bcrypt_hash s salt = Bcrypt salt s"

definition bcrypt_compare :: "string \<Rightarrow> pwstring \<Rightarrow> bool" where
  "bcrypt_compare candidate h =
     (case h of Bcrypt salt (Plain p) \<Rightarrow> p = candidate | _ \<Rightarrow> False)"

subsection \<open>Process environment\<close>

record env =
  JWT_SECRET :: string
  JWT_REFRESH_SECRET :: string
  JWT_EXPIRE :: "nat option"
  JWT_REFRESH_EXPIRE :: "nat option"
  NODE_ENV :: string

text \<open>\<open>process.env.JWT_EXPIRE || '24h'\<close> and \<open>process.env.JWT_REFRESH_EXPIRE || '7d'\<close>, in seconds.\<close>

definition jwt_expire :: "env \<Rightarrow> nat" where
  "jwt_expire e = (case JWT_EXPIRE e of None \<Rightarrow> 24 * 60 * 60 | Some s \<Rightarrow> s)"

definition jwt_refresh_expire :: "env \<Rightarrow> nat" where
  "jwt_refresh_expire e = (case JWT_REFRESH_EXPIRE e of None \<Rightarrow> 7 * 24 * 60 * 60 | Some s \<Rightarrow> s)"

subsection \<open>The user model\<close>

record refreshEntry =
  token :: jwt
  createdAt :: time
  expiresAt :: time

text \<open>
  The fields of \<open>userSchema\<close> that the authentication core reads or writes. \<open>user_id\<close> is
  \<open>_id\<close>. An absent (\<open>undefined\<close>) field is \<open>None\<close>; \<open>loginAttempts\<close> has the schema
  default \<open>0\<close>, which a document without the field is loaded with.
\<close>

record user =
  user_id :: uid
  email :: string
  password :: "pwstring option"
  isActive :: bool
  passwordResetToken :: "jwt option"
  passwordResetExpires :: "time option"
  lastLogin :: "time option"
  loginAttempts :: nat
  lockUntil :: "time option"
  refreshTokens :: "refreshEntry list"

type_synonym store = "user list"

text \<open>The virtual \<open>isLocked\<close>: \<open>!!(this.lockUntil && this.lockUntil > Date.now())\<close>.\<close>

definition isLocked :: "user \<Rightarrow> time \<Rightarrow> bool" where
  "isLocked this now = (case lockUntil this of None \<Rightarrow> False | Some t \<Rightarrow> t > now)"

definition comparePassword :: "user \<Rightarrow> string \<Rightarrow> bool" where
  "comparePassword this candidatePassword =
     (case password this of
        None \<Rightarrow> False
      | Some h \<Rightarrow> if h = Plain [] then False else bcrypt_compare candidatePassword h)"

subsubsection \<open>Queries and updates\<close>

definition findOne :: "(user \<Rightarrow> bool) \<Rightarrow> store \<Rightarrow> user option" where
  "findOne P st = find P st"

text \<open>\<open>findById(undefined)\<close> matches no document.\<close>

definition findById :: "store \<Rightarrow> uid option \<Rightarrow> user option" where
  "findById st i = (case i of None \<Rightarrow> None | Some j \<Rightarrow> findOne (\<lambda>u. user_id u = j) st)"

text \<open>The password has \<open>select: false\<close>: a query without \<open>+password\<close> does not load it.\<close>

definition deselect_password :: "user \<Rightarrow> user" where
  "deselect_password u = u\<lparr>password := None\<rparr>"

definition updateOne :: "store \<Rightarrow> uid \<Rightarrow> (user \<Rightarrow> user) \<Rightarrow> store" where
  "updateOne st i f = map (\<lambda>d. if user_id d = i then f d else d) st"

subsubsection \<open>Documents in memory and \<open>save\<close>\<close>

text \<open>
  A loaded document tracks the paths assigned since it was loaded (\<open>isModified\<close>).
  \<open>save\<close> runs the pre-save hooks and writes the modified paths only. The second
  pre-save hook (membership id of a new document) does nothing on a loaded document.
\<close>

datatype path = P_password | P_passwordResetToken | P_passwordResetExpires | P_lastLogin | P_refreshTokens

record document =
  doc :: user
  modifiedPaths :: "path list"

definition hydrate :: "user \<Rightarrow> document" where
  "hydrate u = \<lparr>doc = u, modifiedPaths = []\<rparr>"

definition isModified :: "document \<Rightarrow> path \<Rightarrow> bool" where
  "isModified d p = (p \<in> set (modifiedPaths d))"

definition set_password :: "document \<Rightarrow> pwstring option \<Rightarrow> document" where
  "set_password d v = \<lparr>doc = (doc d)\<lparr>password := v\<rparr>, modifiedPaths = P_password # modifiedPaths d\<rparr>"

definition set_passwordResetToken :: "document \<Rightarrow> jwt option \<Rightarrow> document" where
  "set_passwordResetToken d v =
     \<lparr>doc = (doc d)\<lparr>passwordResetToken := v\<rparr>, modifiedPaths = P_passwordResetToken # modifiedPaths d\<rparr>"

definition set_passwordResetExpires :: "document \<Rightarrow> time option \<Rightarrow> document" where
  "set_passwordResetExpires d v =
     \<lparr>doc = (doc d)\<lparr>passwordResetExpires := v\<rparr>, modifiedPaths = P_passwordResetExpires # modifiedPaths d\<rparr>"

definition set_lastLogin :: "document \<Rightarrow> time option \<Rightarrow> document" where
  "set_lastLogin d v = \<lparr>doc = (doc d)\<lparr>lastLogin := v\<rparr>, modifiedPaths = P_lastLogin # modifiedPaths d\<rparr>"

definition set_refreshTokens :: "document \<Rightarrow> refreshEntry list \<Rightarrow> document" where
  "set_refreshTokens d v =
     \<lparr>doc = (doc d)\<lparr>refreshTokens := v\<rparr>, modifiedPaths = P_refreshTokens # modifiedPaths d\<rparr>"

text \<open>
  The password hook:
  \<^verbatim>\<open>if (!this.isModified('password')) return next();
  const salt = await bcrypt.genSalt(12);
  this.password = await bcrypt.hash(this.password, salt);\<close>
  \<open>rnd\<close> is the randomness \<open>genSalt\<close> would draw.
\<close>

definition pre_save_password :: "nat \<Rightarrow> document \<Rightarrow> document" where
  "pre_save_password rnd this =
     (if \<not> isModified this P_password then this
      else this\<lparr>doc := (doc this)\<lparr>password :=
             (case password (doc this) of
                None \<Rightarrow> None
              | Some p \<Rightarrow> Some (bcrypt_hash p (bcrypt_genSalt 12 rnd)))\<rparr>\<rparr>)"

fun write_path :: "user \<Rightarrow> path \<Rightarrow> user \<Rightarrow> user" where
  "write_path src P_password d = d\<lparr>password := password src\<rparr>"
| "write_path src P_passwordResetToken d = d\<lparr>passwordResetToken := passwordResetToken src\<rparr>"
| "write_path src P_passwordResetExpires d = d\<lparr>passwordResetExpires := passwordResetExpires src\<rparr>"
| "write_path src P_lastLogin d = d\<lparr>lastLogin := lastLogin src\<rparr>"
| "write_path src P_refreshTokens d = d\<lparr>refreshTokens := refreshTokens src\<rparr>"

definition write_paths :: "user \<Rightarrow> path list \<Rightarrow> user \<Rightarrow> user" where
  "write_paths src ps d = foldr (write_path src) ps d"

text \<open>\<open>save\<close> returns the collection and the document, whose modified paths are reset.\<close>

definition save :: "nat \<Rightarrow> store \<Rightarrow> document \<Rightarrow> store \<times> document" where
  "save rnd st this =
     (let this' = pre_save_password rnd this
      in (updateOne st (user_id (doc this')) (write_paths (doc this') (modifiedPaths this')),
          this'\<lparr>modifiedPaths := []\<rparr>))"

subsubsection \<open>Lockout methods\<close>

text \<open>
  \<^verbatim>\<open>if (this.lockUntil && this.lockUntil < Date.now())
    return this.updateOne({ $unset: { lockUntil: 1 }, $set: { loginAttempts: 1 } });
  const updates = { $inc: { loginAttempts: 1 } };
  if (this.loginAttempts + 1 >= 5 && !this.isLocked)
    updates.$set = { lockUntil: Date.now() + 2 * 60 * 60 * 1000 };
  return this.updateOne(updates);\<close>
  The tests read the loaded document \<open>this\<close>; \<open>$inc\<close> adds to the stored counter.
\<close>

definition incLoginAttempts :: "store \<Rightarrow> user \<Rightarrow> time \<Rightarrow> store" where
  "incLoginAttempts st this now =
     (if (case lockUntil this of None \<Rightarrow> False | Some t \<Rightarrow> t < now)
      then updateOne st (user_id this) (\<lambda>d. d\<lparr>lockUntil := None, loginAttempts := 1\<rparr>)
      else
        let updates_set =
              (if loginAttempts this + 1 \<ge> 5 \<and> \<not> isLocked this now
               then Some (now + 2 * 60 * 60 * 1000) else None)
        in updateOne st (user_id this)
             (\<lambda>d. (case updates_set of None \<Rightarrow> d | Some t \<Rightarrow> d\<lparr>lockUntil := Some t\<rparr>)
                    \<lparr>loginAttempts := loginAttempts d + 1\<rparr>))"

text \<open>\<open>$unset: { loginAttempts: 1, lockUntil: 1 }\<close>: the counter falls back to its default.\<close>

definition resetLoginAttempts :: "store \<Rightarrow> user \<Rightarrow> store" where
  "resetLoginAttempts st this =
     updateOne st (user_id this) (\<lambda>d. d\<lparr>loginAttempts := 0, lockUntil := None\<rparr>)"

definition cleanExpiredTokens :: "nat \<Rightarrow> store \<Rightarrow> document \<Rightarrow> time \<Rightarrow> store \<times> document" where
  "cleanExpiredTokens rnd st this now =
     save rnd st (set_refreshTokens this (filter (\<lambda>tokenObj. expiresAt tokenObj > now) (refreshTokens (doc this))))"

subsection \<open>Token helpers (\<open>middleware/auth.js\<close>)\<close>

definition generateToken :: "env \<Rightarrow> uid \<Rightarrow> time \<Rightarrow> jwt" where
  "generateToken e uid now = jwt_sign (Payload (Some uid) None None) (JWT_SECRET e) (jwt_expire e) now"

definition generateRefreshToken :: "env \<Rightarrow> uid \<Rightarrow> time \<Rightarrow> jwt" where
  "generateRefreshToken e uid now =
     jwt_sign (Payload (Some uid) (Some ''refresh'') None) (JWT_REFRESH_SECRET e) (jwt_refresh_expire e) now"

definition verifyRefreshToken :: "env \<Rightarrow> time \<Rightarrow> jwt \<Rightarrow> exn + payload" where
  "verifyRefreshToken e now tok =
     (case jwt_verify tok (JWT_REFRESH_SECRET e) now of
        Inl err \<Rightarrow> Inl err
      | Inr decoded \<Rightarrow>
          if token_type decoded \<noteq> Some ''refresh'' then Inl (Error ''Invalid token type'')
          else Inr decoded)"

definition generatePasswordResetToken :: "env \<Rightarrow> time \<Rightarrow> jwt" where
  "generatePasswordResetToken e now =
     jwt_sign (Payload None (Some ''password-reset'') (Some now)) (JWT_SECRET e) (60 * 60) now"

definition verifyPasswordResetToken :: "env \<Rightarrow> time \<Rightarrow> jwt \<Rightarrow> exn + payload" where
  "verifyPasswordResetToken e now tok =
     (case jwt_verify tok (JWT_SECRET e) now of
        Inl err \<Rightarrow> Inl err
      | Inr decoded \<Rightarrow>
          if token_type decoded \<noteq> Some ''password-reset'' then Inl (Error ''Invalid token type'')
          else Inr decoded)"

definition generateEmailVerificationToken :: "env \<Rightarrow> uid \<Rightarrow> time \<Rightarrow> jwt" where
  "generateEmailVerificationToken e uid now =
     jwt_sign (Payload (Some uid) (Some ''email-verification'') None) (JWT_SECRET e) (24 * 60 * 60) now"

definition verifyEmailVerificationToken :: "env \<Rightarrow> time \<Rightarrow> jwt \<Rightarrow> exn + payload" where
  "verifyEmailVerificationToken e now tok =
     (case jwt_verify tok (JWT_SECRET e) now of
        Inl err \<Rightarrow> Inl err
      | Inr decoded \<Rightarrow>
          if token_type decoded \<noteq> Some ''email-verification'' then Inl (Error ''Invalid token type'')
          else Inr decoded)"

subsection \<open>The request gate \<open>authenticateToken\<close>\<close>

text \<open>
  The \<open>Authorization\<close> header is given as the list \<open>authHeader.split(' ')\<close>, or \<open>None\<close>
  when the request has none. \<open>!token\<close> holds of \<open>undefined\<close> and of the empty string.
\<close>

definition falsy :: "jwt \<Rightarrow> bool" where
  "falsy t = (t = NotJwt [])"

definition bearer :: "jwt list option \<Rightarrow> jwt option" where
  "bearer authHeader =
     (case authHeader of
        None \<Rightarrow> None
      | Some ws \<Rightarrow> if 1 < length ws then Some (ws ! 1) else None)"

datatype gate = Rejected nat string | Next user

definition authenticateToken :: "env \<Rightarrow> store \<Rightarrow> time \<Rightarrow> jwt list option \<Rightarrow> gate" where
  "authenticateToken e st now authHeader =
     (case bearer authHeader of
        None \<Rightarrow> Rejected 401 ''Access token required''
      | Some tok \<Rightarrow>
          if falsy tok then Rejected 401 ''Access token required''
          else
            case jwt_verify tok (JWT_SECRET e) now of
              Inl err \<Rightarrow>
                (if err = JsonWebTokenError then Rejected 401 ''Invalid token''
                 else if err = TokenExpiredError then Rejected 401 ''Token expired''
                 else Rejected 500 ''Authentication error'')
            | Inr decoded \<Rightarrow>
                (case map_option deselect_password (findById st (userId decoded)) of
                   None \<Rightarrow> Rejected 401 ''User not found''
                 | Some user \<Rightarrow>
                     if \<not> isActive user then Rejected 401 ''Account is deactivated''
                     else if isLocked user now then Rejected 401 ''Account is temporarily locked''
                     else Next user))"

subsection \<open>Handlers of \<open>routes/auth.js\<close>\<close>

text \<open>
  A handler is the function passed to \<open>asyncHandler\<close>; the validation middleware has run
  before it. The body sent with \<open>res.json\<close> is the record \<open>response\<close>; a field the body
  does not carry is \<open>None\<close>. The \<open>user\<close> of the login response is \<open>user.toObject()\<close>
  without the deleted fields.
\<close>

record userResponse =
  r_id :: uid
  r_email :: string
  r_isActive :: bool
  r_passwordResetToken :: "jwt option"
  r_passwordResetExpires :: "time option"
  r_lastLogin :: "time option"

record response =
  status :: nat
  success :: bool
  message :: string
  data_user :: "userResponse option"
  data_token :: "jwt option"
  data_refreshToken :: "jwt option"
  resetToken :: "jwt option"

definition toObject :: "user \<Rightarrow> userResponse" where
  "toObject u = \<lparr>r_id = user_id u, r_email = email u, r_isActive = isActive u,
                 r_passwordResetToken = passwordResetToken u,
                 r_passwordResetExpires = passwordResetExpires u, r_lastLogin = lastLogin u\<rparr>"

definition json :: "nat \<Rightarrow> string \<Rightarrow> response" where
  "json code msg = \<lparr>status = code, success = True, message = msg, data_user = None,
                     data_token = None, data_refreshToken = None, resetToken = None\<rparr>"

text \<open>\<open>POST /login\<close>. \<open>rnd\<close> is the randomness available to the pre-save hook.\<close>

definition login :: "env \<Rightarrow> nat \<Rightarrow> store \<Rightarrow> time \<Rightarrow> string \<Rightarrow> string \<Rightarrow> (exn + response) \<times> store" where
  "login e rnd st now email' password' =
     (case findOne (\<lambda>u. email u = email') st of
        None \<Rightarrow> (Inl (AppError ''Invalid credentials'' 401), st)
      | Some user \<Rightarrow>
          if isLocked user now
          then (Inl (AppError ''Account is temporarily locked due to too many failed login attempts'' 423), st)
          else if \<not> isActive user then (Inl (AppError ''Account is deactivated'' 401), st)
          else if \<not> comparePassword user password'
          then (Inl (AppError ''Invalid credentials'' 401), incLoginAttempts st user now)
          else
            let st1 = (if loginAttempts user > 0 then resetLoginAttempts st user else st);
                (st2, d2) = save rnd st1 (set_lastLogin (hydrate user) (Some now));
                tok = generateToken e (user_id user) now;
                refreshToken = generateRefreshToken e (user_id user) now;
                (st3, d3) = cleanExpiredTokens rnd st2 d2 now;
                (st4, d4) = save rnd st3
                   (set_refreshTokens d3
                      (refreshTokens (doc d3) @
                         [\<lparr>token = refreshToken, createdAt = now, expiresAt = now + 7 * 24 * 60 * 60 * 1000\<rparr>]))
            in (Inr ((json 200 ''Login successful'')
                       \<lparr>data_user := Some (toObject (doc d4)), data_token := Some tok,
                        data_refreshToken := Some refreshToken\<rparr>), st4))"

text \<open>\<open>POST /refresh\<close>; it writes nothing. The body field is \<open>None\<close> when absent.\<close>

definition refresh :: "env \<Rightarrow> store \<Rightarrow> time \<Rightarrow> jwt option \<Rightarrow> exn + response" where
  "refresh e st now refreshToken =
     (case refreshToken of
        None \<Rightarrow> Inl (AppError ''Refresh token is required'' 400)
      | Some rt \<Rightarrow>
          if falsy rt then Inl (AppError ''Refresh token is required'' 400)
          else
            case verifyRefreshToken e now rt of
              Inl err \<Rightarrow> Inl err
            | Inr decoded \<Rightarrow>
                (case findById st (userId decoded) of
                   None \<Rightarrow> Inl (AppError ''User not found'' 404)
                 | Some user \<Rightarrow>
                     if \<not> list_ex (\<lambda>tokenObj. token tokenObj = rt) (refreshTokens user)
                     then Inl (AppError ''Invalid refresh token'' 401)
                     else if \<not> isActive user then Inl (AppError ''Account is deactivated'' 401)
                     else Inr ((json 200 ''Token refreshed successfully'')
                                 \<lparr>data_token := Some (generateToken e (user_id user) now)\<rparr>)))"

text \<open>\<open>POST /logout\<close>.\<close>

definition logout :: "nat \<Rightarrow> store \<Rightarrow> jwt option \<Rightarrow> response \<times> store" where
  "logout rnd st refreshToken =
     (let st' =
        (case refreshToken of
           None \<Rightarrow> st
         | Some rt \<Rightarrow>
             if falsy rt then st
             else
               case findOne (\<lambda>u. list_ex (\<lambda>tokenObj. token tokenObj = rt) (refreshTokens u)) st of
                 None \<Rightarrow> st
               | Some user \<Rightarrow>
                   fst (save rnd st
                          (set_refreshTokens (hydrate (deselect_password user))
                             (filter (\<lambda>tokenObj. token tokenObj \<noteq> rt) (refreshTokens user)))))
      in (json 200 ''Logged out successfully'', st'))"

text \<open>\<open>POST /forgot-password\<close>.\<close>

definition forgotPassword :: "env \<Rightarrow> nat \<Rightarrow> store \<Rightarrow> time \<Rightarrow> string \<Rightarrow> response \<times> store" where
  "forgotPassword e rnd st now email' =
     (case findOne (\<lambda>u. email u = email') st of
        None \<Rightarrow>
          (json 200 ''If an account with that email exists, a password reset link has been sent'', st)
      | Some u \<Rightarrow>
          let user = hydrate (deselect_password u);
              resetToken' = generatePasswordResetToken e now;
              user = set_passwordResetToken user (Some resetToken');
              user = set_passwordResetExpires user (Some (now + 60 * 60 * 1000));
              (st', user) = save rnd st user
          in ((json 200 ''Password reset instructions sent to your email'')
                \<lparr>resetToken := (if NODE_ENV e = ''development'' then Some resetToken' else None)\<rparr>, st'))"

text \<open>\<open>POST /reset-password\<close>.\<close>

text \<open>The filter \<open>{ passwordResetToken: token, passwordResetExpires: { $gt: Date.now() } }\<close>.\<close>

definition reset_query :: "jwt \<Rightarrow> time \<Rightarrow> user \<Rightarrow> bool" where
  "reset_query tok now u =
     (passwordResetToken u = Some tok \<and>
      (case passwordResetExpires u of None \<Rightarrow> False | Some t \<Rightarrow> t > now))"

definition resetPassword :: "env \<Rightarrow> nat \<Rightarrow> store \<Rightarrow> time \<Rightarrow> jwt \<Rightarrow> string \<Rightarrow> (exn + response) \<times> store" where
  "resetPassword e rnd st now tok newPassword =
     (case verifyPasswordResetToken e now tok of
        Inl err \<Rightarrow> (Inl (AppError ''Invalid or expired reset token'' 400), st)
      | Inr decoded \<Rightarrow>
          (case findOne (reset_query tok now) st of
             None \<Rightarrow> (Inl (AppError ''Invalid or expired reset token'' 400), st)
           | Some u \<Rightarrow>
               let user = hydrate (deselect_password u);
                   user = set_password user (Some (Plain newPassword));
                   user = set_passwordResetToken user None;
                   user = set_passwordResetExpires user None;
                   user = set_refreshTokens user [];
                   (st', user) = save rnd st user
               in (Inr (json 200 ''Password reset successfully''), st')))"

subsection \<open>\<open>POST /change-password\<close> of \<open>routes/user.js\<close>\<close>

text \<open>The route is behind the request gate; \<open>req_user\<close> is the user the gate attached.\<close>

definition changePassword :: "nat \<Rightarrow> store \<Rightarrow> user \<Rightarrow> string \<Rightarrow> string \<Rightarrow> (exn + response) \<times> store" where
  "changePassword rnd st req_user currentPassword newPassword =
     (case findById st (Some (user_id req_user)) of
        None \<Rightarrow> (Inl (AppError ''User not found'' 404), st)
      | Some u \<Rightarrow>
          if \<not> comparePassword u currentPassword
          then (Inl (AppError ''Current password is incorrect'' 400), st)
          else if comparePassword u newPassword
          then (Inl (AppError ''New password must be different from current password'' 400), st)
          else
            let user = hydrate u;
                user = set_password user (Some (Plain newPassword));
                user = set_refreshTokens user [];
                (st', user) = save rnd st user
            in (Inr (json 200 ''Password changed successfully. Please log in again.''), st'))"

subsection \<open>Example data\<close>

definition env0 :: env where
  "env0 = \<lparr>JWT_SECRET = ''s1'', JWT_REFRESH_SECRET = ''s2'', JWT_EXPIRE = None,
            JWT_REFRESH_EXPIRE = None, NODE_ENV = ''production''\<rparr>"

definition ada :: user where
  "ada = \<lparr>user_id = 1, email = ''ada@x.com'', password = Some (Bcrypt (12, 7) (Plain ''Abcdef1!'')),
          isActive = True, passwordResetToken = None, passwordResetExpires = None,
          lastLogin = None, loginAttempts = 0, lockUntil = None, refreshTokens = []\<rparr>"

definition bob :: user where
  "bob = \<lparr>user_id = 2, email = ''bob@x.com'', password = Some (Bcrypt (12, 9) (Plain ''Zyxwvu9?'')),
          isActive = True, passwordResetToken = None, passwordResetExpires = None,
          lastLogin = None, loginAttempts = 0, lockUntil = None, refreshTokens = []\<rparr>"

text \<open>
  States of \<open>ada\<close> and \<open>bob\<close> after a login at time 1000 (\<open>ada_rt\<close> is the refresh token
  it issues) and after a forgot-password request at time 1000 (\<open>reset_tok\<close> is the reset
  token it issues).
\<close>

definition ada_rt :: jwt where
  "ada_rt = generateRefreshToken env0 1 1000"

definition reset_tok :: jwt where
  "reset_tok = generatePasswordResetToken env0 1000"

definition ada_logged_in :: user where
  "ada_logged_in = ada\<lparr>lastLogin := Some 1000,
      refreshTokens := [\<lparr>token = ada_rt, createdAt = 1000, expiresAt = 604801000\<rparr>]\<rparr>"

definition ada_forgot :: user where
  "ada_forgot = ada\<lparr>passwordResetToken := Some reset_tok, passwordResetExpires := Some 3601000\<rparr>"

definition bob_forgot :: user where
  "bob_forgot = bob\<lparr>passwordResetToken := Some reset_tok, passwordResetExpires := Some 3601000\<rparr>"

definition ada_both :: user where
  "ada_both = ada_logged_in\<lparr>passwordResetToken := Some reset_tok, passwordResetExpires := Some 3601000\<rparr>"

section \<open>Properties\<close>

subsection \<open>Queries after updates\<close>

lemma find_map_pres: "(\<And>x. P (g x) = P x) \<Longrightarrow> find P (map g xs) = map_option g (find P xs)"
  by (induction xs) auto

lemma findOne_updateOne:
  assumes "\<And>d. P (f d) = P d"
  shows "findOne P (updateOne st i f) = map_option (\<lambda>d. if user_id d = i then f d else d) (findOne P st)"
  unfolding findOne_def updateOne_def by (rule find_map_pres) (simp add: assms)

lemma findOne_email_updateOne:
  assumes "\<And>d. email (f d) = email d" and "findOne (\<lambda>u. email u = em) st = Some u"
  shows "findOne (\<lambda>u. email u = em) (updateOne st (user_id u) f) = Some (f u)"
  using assms by (simp add: findOne_updateOne)

lemma findById_Some_id: "findById st (Some i) = Some u \<Longrightarrow> user_id u = i"
  by (auto simp: findById_def findOne_def dest: find_Some_iff[THEN iffD1])

lemma findById_updateOne:
  assumes "\<And>d. user_id (f d) = user_id d" and "findById st (Some i) = Some u"
  shows "findById (updateOne st j f) (Some i) = Some (if i = j then f u else u)"
  using assms findById_Some_id[OF assms(2)] by (simp add: findById_def findOne_updateOne)

lemma findOne_Some_in_set: "findOne P st = Some u \<Longrightarrow> u \<in> set st \<and> P u"
  by (auto simp: findOne_def find_Some_iff)

lemma findOne_None_iff: "findOne P st = None \<longleftrightarrow> (\<forall>u\<in>set st. \<not> P u)"
  by (auto simp: findOne_def find_None_iff)

subsection \<open>What \<open>save\<close> writes\<close>

lemma write_paths_user_id [simp]: "user_id (write_paths src ps d) = user_id d"
  unfolding write_paths_def
proof (induction ps)
  case (Cons p ps) then show ?case by (cases p) simp_all
qed simp

lemma write_paths_email [simp]: "email (write_paths src ps d) = email d"
  unfolding write_paths_def
proof (induction ps)
  case (Cons p ps) then show ?case by (cases p) simp_all
qed simp

lemma write_paths_isActive [simp]: "isActive (write_paths src ps d) = isActive d"
  unfolding write_paths_def
proof (induction ps)
  case (Cons p ps) then show ?case by (cases p) simp_all
qed simp

lemma write_paths_loginAttempts [simp]: "loginAttempts (write_paths src ps d) = loginAttempts d"
  unfolding write_paths_def
proof (induction ps)
  case (Cons p ps) then show ?case by (cases p) simp_all
qed simp

lemma write_paths_lockUntil [simp]: "lockUntil (write_paths src ps d) = lockUntil d"
  unfolding write_paths_def
proof (induction ps)
  case (Cons p ps) then show ?case by (cases p) simp_all
qed simp

lemma write_paths_password:
  "password (write_paths src ps d) = (if P_password \<in> set ps then password src else password d)"
  unfolding write_paths_def
proof (induction ps)
  case (Cons p ps) then show ?case by (cases p) simp_all
qed simp

lemma write_paths_refreshTokens:
  "refreshTokens (write_paths src ps d) =
     (if P_refreshTokens \<in> set ps then refreshTokens src else refreshTokens d)"
  unfolding write_paths_def
proof (induction ps)
  case (Cons p ps) then show ?case by (cases p) simp_all
qed simp

lemma write_paths_passwordResetToken:
  "passwordResetToken (write_paths src ps d) =
     (if P_passwordResetToken \<in> set ps then passwordResetToken src else passwordResetToken d)"
  unfolding write_paths_def
proof (induction ps)
  case (Cons p ps) then show ?case by (cases p) simp_all
qed simp

lemma write_paths_passwordResetExpires:
  "passwordResetExpires (write_paths src ps d) =
     (if P_passwordResetExpires \<in> set ps then passwordResetExpires src else passwordResetExpires d)"
  unfolding write_paths_def
proof (induction ps)
  case (Cons p ps) then show ?case by (cases p) simp_all
qed simp

subsection \<open>Evaluation of the examples\<close>

lemmas example_defs = env0_def ada_def bob_def ada_rt_def reset_tok_def ada_logged_in_def
  ada_forgot_def bob_forgot_def ada_both_def

lemmas token_defs = generateToken_def generateRefreshToken_def generatePasswordResetToken_def
  generateEmailVerificationToken_def verifyRefreshToken_def verifyPasswordResetToken_def
  verifyEmailVerificationToken_def jwt_sign_def jwt_verify_def jwt_expire_def jwt_refresh_expire_def

lemmas model_defs = findOne_def findById_def updateOne_def deselect_password_def isLocked_def
  comparePassword_def bcrypt_compare_def bcrypt_hash_def bcrypt_genSalt_def hydrate_def
  isModified_def set_password_def set_passwordResetToken_def set_passwordResetExpires_def
  set_lastLogin_def set_refreshTokens_def pre_save_password_def write_paths_def save_def
  incLoginAttempts_def resetLoginAttempts_def cleanExpiredTokens_def falsy_def bearer_def json_def
  toObject_def

subsection \<open>Login and the lockout policy\<close>

lemma login_unknown_email:
  assumes "findOne (\<lambda>u. email u = em) st = None"
  shows "login e rnd st now em pw = (Inl (AppError ''Invalid credentials'' 401), st)"
  using assms by (simp add: login_def)

lemma login_wrong_password:
  assumes "findOne (\<lambda>u. email u = em) st = Some u" "\<not> isLocked u now" "isActive u"
    "\<not> comparePassword u pw"
  shows "login e rnd st now em pw = (Inl (AppError ''Invalid credentials'' 401), incLoginAttempts st u now)"
  using assms by (simp add: login_def)

lemma login_locked:
  assumes "findOne (\<lambda>u. email u = em) st = Some u" "isLocked u now"
  shows "login e rnd st now em pw =
    (Inl (AppError ''Account is temporarily locked due to too many failed login attempts'' 423), st)"
  using assms by (simp add: login_def)

lemma findOne_email_incLoginAttempts:
  assumes "findOne (\<lambda>u. email u = em) st = Some u"
  shows "findOne (\<lambda>u. email u = em) (incLoginAttempts st u now) =
     Some (if (case lockUntil u of None \<Rightarrow> False | Some t \<Rightarrow> t < now)
           then u\<lparr>lockUntil := None, loginAttempts := 1\<rparr>
           else if loginAttempts u + 1 \<ge> 5 \<and> \<not> isLocked u now
           then u\<lparr>lockUntil := Some (now + 2 * 60 * 60 * 1000), loginAttempts := loginAttempts u + 1\<rparr>
           else u\<lparr>loginAttempts := loginAttempts u + 1\<rparr>)"
  using assms by (simp add: incLoginAttempts_def findOne_email_updateOne Let_def)

text \<open>
  Claim C2. For an account that is not locked, the failed login that brings the stored
  failed-attempt counter to 5 sets \<open>lockUntil\<close> to \<open>now\<close> + 2 hours, and every later login
  while that instant is in the future is answered with status 423, whatever the password.
\<close>

theorem C2_fifth_failure_locks:
  assumes found: "findOne (\<lambda>u. email u = em) st = Some u"
    and unlocked: "\<not> isLocked u now" and active: "isActive u"
    and wrong: "\<not> comparePassword u pw"
    and st': "login e rnd st now em pw = (r, st')"
    and found': "findOne (\<lambda>u. email u = em) st' = Some u'"
    and five: "loginAttempts u' = 5"
  shows "r = Inl (AppError ''Invalid credentials'' 401)
       \<and> lockUntil u' = Some (now + 2 * 60 * 60 * 1000)
       \<and> (\<forall>now' pw' rnd'. now' < now + 2 * 60 * 60 * 1000 \<longrightarrow>
            login e rnd' st' now' em pw' =
              (Inl (AppError ''Account is temporarily locked due to too many failed login attempts'' 423), st'))"
proof -
  from found unlocked active wrong st'
  have r: "r = Inl (AppError ''Invalid credentials'' 401)" and s: "st' = incLoginAttempts st u now"
    by (simp_all add: login_wrong_password)
  have lock: "lockUntil u' = Some (now + 2 * 60 * 60 * 1000)"
    using found' five unlocked unfolding s findOne_email_incLoginAttempts[OF found]
    by (auto split: if_splits option.splits)
  have "\<And>now'. now' < now + 2 * 60 * 60 * 1000 \<Longrightarrow> isLocked u' now'"
    using lock by (simp add: isLocked_def)
  then show ?thesis
    using r lock found' by (simp add: login_locked)
qed

theorem C2_fifth_failure_locks_witness:
  "findOne (\<lambda>u. email u = ''ada@x.com'') [ada\<lparr>loginAttempts := 4\<rparr>, bob] = Some (ada\<lparr>loginAttempts := 4\<rparr>)
   \<and> \<not> isLocked (ada\<lparr>loginAttempts := 4\<rparr>) 1000
   \<and> isActive (ada\<lparr>loginAttempts := 4\<rparr>)
   \<and> \<not> comparePassword (ada\<lparr>loginAttempts := 4\<rparr>) ''wrong''
   \<and> login env0 0 [ada\<lparr>loginAttempts := 4\<rparr>, bob] 1000 ''ada@x.com'' ''wrong'' =
       (Inl (AppError ''Invalid credentials'' 401), [ada\<lparr>loginAttempts := 5, lockUntil := Some 7201000\<rparr>, bob])
   \<and> findOne (\<lambda>u. email u = ''ada@x.com'') [ada\<lparr>loginAttempts := 5, lockUntil := Some 7201000\<rparr>, bob] =
       Some (ada\<lparr>loginAttempts := 5, lockUntil := Some 7201000\<rparr>)
   \<and> loginAttempts (ada\<lparr>loginAttempts := 5, lockUntil := Some 7201000\<rparr>) = 5
   \<and> lockUntil (ada\<lparr>loginAttempts := 5, lockUntil := Some 7201000\<rparr>) = Some (1000 + 2 * 60 * 60 * 1000)
   \<and> login env0 1 [ada\<lparr>loginAttempts := 5, lockUntil := Some 7201000\<rparr>, bob] 7200999 ''ada@x.com'' ''Abcdef1!'' =
       (Inl (AppError ''Account is temporarily locked due to too many failed login attempts'' 423),
        [ada\<lparr>loginAttempts := 5, lockUntil := Some 7201000\<rparr>, bob])"
proof -
  let ?u = "ada\<lparr>loginAttempts := 4\<rparr>" and ?u' = "ada\<lparr>loginAttempts := 5, lockUntil := Some 7201000\<rparr>"
  have h1: "findOne (\<lambda>u. email u = ''ada@x.com'') [?u, bob] = Some ?u"
    by (simp add: findOne_def example_defs)
  have h2: "\<not> isLocked ?u 1000" by (simp add: isLocked_def example_defs)
  have h3: "isActive ?u" by (simp add: example_defs)
  have h4: "\<not> comparePassword ?u ''wrong''"
    by (simp add: comparePassword_def bcrypt_compare_def example_defs)
  have h5: "login env0 0 [?u, bob] 1000 ''ada@x.com'' ''wrong'' =
       (Inl (AppError ''Invalid credentials'' 401), [?u', bob])"
    by (simp add: login_wrong_password[OF h1 h2 h3 h4])
       (simp add: incLoginAttempts_def updateOne_def isLocked_def example_defs)
  have h6: "findOne (\<lambda>u. email u = ''ada@x.com'') [?u', bob] = Some ?u'"
    by (simp add: findOne_def example_defs)
  have h7: "loginAttempts ?u' = 5" by simp
  from C2_fifth_failure_locks[OF h1 h2 h3 h4 h5 h6 h7]
  have "lockUntil ?u' = Some (1000 + 2 * 60 * 60 * 1000)"
    and "login env0 1 [?u', bob] 7200999 ''ada@x.com'' ''Abcdef1!'' =
       (Inl (AppError ''Account is temporarily locked due to too many failed login attempts'' 423), [?u', bob])"
    by simp_all
  with h1 h2 h3 h4 h5 h6 h7 show ?thesis by blast
qed

text \<open>
  Claim C8. For an account whose \<open>lockUntil\<close> is in the past, the next failed login
  removes \<open>lockUntil\<close> and sets the failed-attempt counter to exactly 1.
\<close>

theorem C8_expired_lock_restarts_at_one:
  assumes "findOne (\<lambda>u. email u = em) st = Some u"
    and "lockUntil u = Some t" and "t < now"
    and "isActive u" and "\<not> comparePassword u pw"
  shows "login e rnd st now em pw =
           (Inl (AppError ''Invalid credentials'' 401), incLoginAttempts st u now)
       \<and> findOne (\<lambda>u. email u = em) (incLoginAttempts st u now) =
           Some (u\<lparr>lockUntil := None, loginAttempts := 1\<rparr>)"
proof -
  have "\<not> isLocked u now" using assms(2,3) by (simp add: isLocked_def)
  then show ?thesis
    using assms by (simp add: login_wrong_password findOne_email_incLoginAttempts)
qed

theorem C8_expired_lock_restarts_at_one_witness:
  "findOne (\<lambda>u. email u = ''ada@x.com'') [ada\<lparr>loginAttempts := 5, lockUntil := Some 7201000\<rparr>, bob] =
       Some (ada\<lparr>loginAttempts := 5, lockUntil := Some 7201000\<rparr>)
   \<and> lockUntil (ada\<lparr>loginAttempts := 5, lockUntil := Some 7201000\<rparr>) = Some 7201000
   \<and> (7201000 :: nat) < 7201001
   \<and> isActive (ada\<lparr>loginAttempts := 5, lockUntil := Some 7201000\<rparr>)
   \<and> \<not> comparePassword (ada\<lparr>loginAttempts := 5, lockUntil := Some 7201000\<rparr>) ''wrong''
   \<and> login env0 0 [ada\<lparr>loginAttempts := 5, lockUntil := Some 7201000\<rparr>, bob] 7201001 ''ada@x.com'' ''wrong'' =
       (Inl (AppError ''Invalid credentials'' 401), [ada\<lparr>loginAttempts := 1, lockUntil := None\<rparr>, bob])
   \<and> findOne (\<lambda>u. email u = ''ada@x.com'') [ada\<lparr>loginAttempts := 1, lockUntil := None\<rparr>, bob] =
       Some (ada\<lparr>loginAttempts := 1, lockUntil := None\<rparr>)"
proof -
  let ?u = "ada\<lparr>loginAttempts := 5, lockUntil := Some 7201000\<rparr>"
  have h1: "findOne (\<lambda>u. email u = ''ada@x.com'') [?u, bob] = Some ?u"
    by (simp add: findOne_def example_defs)
  have h2: "lockUntil ?u = Some 7201000" by simp
  have h3: "(7201000 :: nat) < 7201001" by simp
  have h4: "isActive ?u" by (simp add: example_defs)
  have h5: "\<not> comparePassword ?u ''wrong''"
    by (simp add: comparePassword_def bcrypt_compare_def example_defs)
  have s: "incLoginAttempts [?u, bob] ?u 7201001 = [ada\<lparr>loginAttempts := 1, lockUntil := None\<rparr>, bob]"
    by (simp add: incLoginAttempts_def updateOne_def example_defs)
  from C8_expired_lock_restarts_at_one[OF h1 h2 h3 h4 h5, of env0 0]
  have "login env0 0 [?u, bob] 7201001 ''ada@x.com'' ''wrong'' =
       (Inl (AppError ''Invalid credentials'' 401), [ada\<lparr>loginAttempts := 1, lockUntil := None\<rparr>, bob])"
    and "findOne (\<lambda>u. email u = ''ada@x.com'') [ada\<lparr>loginAttempts := 1, lockUntil := None\<rparr>, bob] =
       Some (ada\<lparr>loginAttempts := 1, lockUntil := None\<rparr>)"
    unfolding s by (simp_all add: example_defs)
  with h1 h2 h3 h4 h5 show ?thesis by blast
qed

text \<open>
  Claim C4. A login that fails because no account has the email and a login that fails
  because the password does not match an existing, unlocked, active account throw the
  same error: status 401 with the message "Invalid credentials".
\<close>

theorem C4_login_failures_indistinguishable:
  assumes "findOne (\<lambda>u. email u = em1) st1 = None"
    and "findOne (\<lambda>u. email u = em2) st2 = Some u"
    and "\<not> isLocked u now2" and "isActive u" and "\<not> comparePassword u pw2"
  shows "fst (login e rnd1 st1 now1 em1 pw1) = fst (login e rnd2 st2 now2 em2 pw2)
       \<and> fst (login e rnd1 st1 now1 em1 pw1) = Inl (AppError ''Invalid credentials'' 401)"
  using assms by (simp add: login_unknown_email login_wrong_password)

theorem C4_login_failures_indistinguishable_witness:
  "findOne (\<lambda>u. email u = ''unknown@x.com'') [ada, bob] = None
   \<and> findOne (\<lambda>u. email u = ''ada@x.com'') [ada, bob] = Some ada
   \<and> \<not> isLocked ada 1000 \<and> isActive ada \<and> \<not> comparePassword ada ''wrong''
   \<and> fst (login env0 0 [ada, bob] 1000 ''unknown@x.com'' ''Abcdef1!'') =
       fst (login env0 0 [ada, bob] 1000 ''ada@x.com'' ''wrong'')
   \<and> fst (login env0 0 [ada, bob] 1000 ''unknown@x.com'' ''Abcdef1!'') =
       Inl (AppError ''Invalid credentials'' 401)"
proof -
  have h1: "findOne (\<lambda>u. email u = ''unknown@x.com'') [ada, bob] = None"
    by (simp add: findOne_def example_defs)
  have h2: "findOne (\<lambda>u. email u = ''ada@x.com'') [ada, bob] = Some ada"
    by (simp add: findOne_def example_defs)
  have h3: "\<not> isLocked ada 1000" by (simp add: isLocked_def example_defs)
  have h4: "isActive ada" by (simp add: example_defs)
  have h5: "\<not> comparePassword ada ''wrong''"
    by (simp add: comparePassword_def bcrypt_compare_def example_defs)
  from C4_login_failures_indistinguishable[OF h1 h2 h3 h4 h5, of env0 0 1000 "''Abcdef1!''" 0]
  show ?thesis using h1 h2 h3 h4 h5 by blast
qed

subsection \<open>Token kinds\<close>

text \<open>The three \<open>verify...Token\<close> helpers return only a payload of their own kind.\<close>

lemma verify_helpers_check_kind:
  "(verifyRefreshToken e now tok = Inr d \<longrightarrow> token_type d = Some ''refresh'')
   \<and> (verifyPasswordResetToken e now tok = Inr d \<longrightarrow> token_type d = Some ''password-reset'')
   \<and> (verifyEmailVerificationToken e now tok = Inr d \<longrightarrow> token_type d = Some ''email-verification'')"
  by (auto simp: verifyRefreshToken_def verifyPasswordResetToken_def verifyEmailVerificationToken_def
           split: sum.splits if_splits)

text \<open>
  The gate never reads the \<open>type\<close> claim. A password-reset token carries no \<open>userId\<close>, so
  the gate finds no user for it; an email-verification token carries one and is signed
  with \<open>JWT_SECRET\<close>, so the gate lets it through like an access token.
\<close>

lemma gate_password_reset_token:
  "authenticateToken e st now (Some [w, generatePasswordResetToken e t0]) =
     (if now div 1000 \<ge> t0 div 1000 + 60 * 60 then Rejected 401 ''Token expired''
      else Rejected 401 ''User not found'')"
  by (simp add: authenticateToken_def bearer_def falsy_def generatePasswordResetToken_def
        jwt_sign_def jwt_verify_def findById_def)

lemma gate_email_verification_token:
  assumes "findById st (Some i) = Some u" and "isActive u" and "\<not> isLocked u now"
    and "now div 1000 < t0 div 1000 + 24 * 60 * 60"
  shows "authenticateToken e st now (Some [w, generateEmailVerificationToken e i t0]) =
           Next (deselect_password u)"
  using assms
  by (simp add: authenticateToken_def bearer_def falsy_def generateEmailVerificationToken_def
        jwt_sign_def jwt_verify_def deselect_password_def isLocked_def)

text \<open>
  Claim C1. Every token-verifying operation rejects a token of another kind; in
  particular the request gate rejects an email-verification or a password-reset token
  presented as an access token. The gate does not: an unexpired email-verification token
  of an active, unlocked account passes it, and the account is attached to the request.
\<close>

theorem C1_gate_accepts_email_verification_token:
  "verifyEmailVerificationToken env0 5000 (generateEmailVerificationToken env0 1 1000) =
     Inr (Payload (Some 1) (Some ''email-verification'') None)
   \<and> authenticateToken env0 [ada, bob] 5000
        (Some [NotJwt ''Bearer'', generateEmailVerificationToken env0 1 1000]) =
     Next (deselect_password ada)"
proof -
  have "findById [ada, bob] (Some 1) = Some ada"
    by (simp add: findById_def findOne_def example_defs)
  moreover have "isActive ada" "\<not> isLocked ada 5000"
    by (simp_all add: isLocked_def example_defs)
  ultimately have "authenticateToken env0 [ada, bob] 5000
        (Some [NotJwt ''Bearer'', generateEmailVerificationToken env0 1 1000]) =
     Next (deselect_password ada)"
    by (intro gate_email_verification_token) simp_all
  moreover have "verifyEmailVerificationToken env0 5000 (generateEmailVerificationToken env0 1 1000) =
     Inr (Payload (Some 1) (Some ''email-verification'') None)"
    by (simp add: token_defs example_defs)
  ultimately show ?thesis by simp
qed

subsection \<open>Forgotten passwords\<close>

lemma forgotPassword_message:
  "message (fst (forgotPassword e rnd st now em)) =
     (if findOne (\<lambda>u. email u = em) st = None
      then ''If an account with that email exists, a password reset link has been sent''
      else ''Password reset instructions sent to your email'')"
  by (auto simp: forgotPassword_def json_def Let_def split: option.splits prod.splits)

text \<open>
  Claim C3. \<open>forgotPassword\<close> answers with the same body whether or not an account has
  the email. It does not: the two bodies carry different messages.
\<close>

theorem C3_forgotPassword_bodies_differ:
  "message (fst (forgotPassword env0 0 [ada, bob] 1000 ''unknown@x.com'')) =
     ''If an account with that email exists, a password reset link has been sent''
   \<and> message (fst (forgotPassword env0 0 [ada, bob] 1000 ''ada@x.com'')) =
     ''Password reset instructions sent to your email''
   \<and> fst (forgotPassword env0 0 [ada, bob] 1000 ''unknown@x.com'') \<noteq>
     fst (forgotPassword env0 0 [ada, bob] 1000 ''ada@x.com'')"
proof -
  have a: "findOne (\<lambda>u. email u = ''unknown@x.com'') [ada, bob] = None"
    and b: "findOne (\<lambda>u. email u = ''ada@x.com'') [ada, bob] \<noteq> None"
    by (simp_all add: findOne_def example_defs)
  have m1: "message (fst (forgotPassword env0 0 [ada, bob] 1000 ''unknown@x.com'')) =
     ''If an account with that email exists, a password reset link has been sent''"
    and m2: "message (fst (forgotPassword env0 0 [ada, bob] 1000 ''ada@x.com'')) =
     ''Password reset instructions sent to your email''"
    using a b by (simp_all add: forgotPassword_message)
  have "fst (forgotPassword env0 0 [ada, bob] 1000 ''unknown@x.com'') \<noteq>
     fst (forgotPassword env0 0 [ada, bob] 1000 ''ada@x.com'')"
  proof
    assume "fst (forgotPassword env0 0 [ada, bob] 1000 ''unknown@x.com'') =
       fst (forgotPassword env0 0 [ada, bob] 1000 ''ada@x.com'')"
    then have "message (fst (forgotPassword env0 0 [ada, bob] 1000 ''unknown@x.com'')) =
       message (fst (forgotPassword env0 0 [ada, bob] 1000 ''ada@x.com''))"
      by simp
    then show False unfolding m1 m2 by simp
  qed
  with m1 m2 show ?thesis by simp
qed

subsection \<open>Saving and the password hash\<close>

lemma pre_save_password_id [simp]: "user_id (doc (pre_save_password rnd d)) = user_id (doc d)"
  by (simp add: pre_save_password_def)

lemma pre_save_password_modifiedPaths [simp]:
  "modifiedPaths (pre_save_password rnd d) = modifiedPaths d"
  by (simp add: pre_save_password_def)

lemma pre_save_password_unmodified:
  "\<not> isModified d P_password \<Longrightarrow> pre_save_password rnd d = d"
  by (simp add: pre_save_password_def)

lemma fst_save:
  "fst (save rnd st d) =
     updateOne st (user_id (doc d)) (write_paths (doc (pre_save_password rnd d)) (modifiedPaths d))"
  by (simp add: save_def Let_def)

lemma snd_save: "snd (save rnd st d) = (pre_save_password rnd d)\<lparr>modifiedPaths := []\<rparr>"
  by (simp add: save_def Let_def)

lemma map_password_updateOne:
  "(\<And>d. password (f d) = password d) \<Longrightarrow> map password (updateOne st i f) = map password st"
  by (simp add: updateOne_def)

lemma save_keeps_passwords:
  "\<not> isModified d P_password \<Longrightarrow> map password (fst (save rnd st d)) = map password st"
  by (simp add: fst_save map_password_updateOne write_paths_password isModified_def)

lemma incLoginAttempts_keeps_passwords: "map password (incLoginAttempts st u now) = map password st"
  by (simp add: incLoginAttempts_def map_password_updateOne Let_def split: option.splits)

lemma resetLoginAttempts_keeps_passwords: "map password (resetLoginAttempts st u) = map password st"
  by (simp add: resetLoginAttempts_def map_password_updateOne)

lemma login_keeps_passwords: "map password (snd (login e rnd st now em pw)) = map password st"
proof (cases "findOne (\<lambda>u. email u = em) st")
  case None
  then show ?thesis by (simp add: login_def)
next
  case (Some u)
  have m: "\<And>v x. \<not> isModified (set_lastLogin (hydrate v) x) P_password"
    "\<And>d x. \<not> isModified (set_refreshTokens ((pre_save_password rnd d)\<lparr>modifiedPaths := []\<rparr>) x) P_password"
    by (simp_all add: isModified_def set_lastLogin_def set_refreshTokens_def hydrate_def)
  show ?thesis
    using Some
    by (simp add: login_def Let_def split_beta cleanExpiredTokens_def snd_save
          save_keeps_passwords m incLoginAttempts_keeps_passwords resetLoginAttempts_keeps_passwords)
qed

lemma logout_keeps_passwords: "map password (snd (logout rnd st rt)) = map password st"
proof -
  have "\<And>v x. \<not> isModified (set_refreshTokens (hydrate v) x) P_password"
    by (simp add: isModified_def set_refreshTokens_def hydrate_def)
  then show ?thesis
    by (simp add: logout_def Let_def save_keeps_passwords split: option.splits)
qed

lemma forgotPassword_keeps_passwords:
  "map password (snd (forgotPassword e rnd st now em)) = map password st"
proof -
  have "\<And>v x y. \<not> isModified (set_passwordResetExpires (set_passwordResetToken (hydrate v) x) y) P_password"
    by (simp add: isModified_def set_passwordResetExpires_def set_passwordResetToken_def hydrate_def)
  then show ?thesis
    by (simp add: forgotPassword_def Let_def split_beta save_keeps_passwords split: option.splits)
qed

text \<open>
  Claim C9. Saving an account whose password field was not assigned leaves the stored
  password hash unchanged: the hook returns the document as it is and no stored hash
  changes. Login, logout and forgot-password, which save without assigning the password,
  change no stored hash.
\<close>

theorem C9_save_without_password_keeps_hash:
  "(\<not> isModified d P_password \<longrightarrow>
      pre_save_password rnd d = d \<and> map password (fst (save rnd st d)) = map password st)
   \<and> map password (snd (login e rnd st now em pw)) = map password st
   \<and> map password (snd (logout rnd st rt)) = map password st
   \<and> map password (snd (forgotPassword e rnd st now em)) = map password st"
  by (simp add: pre_save_password_unmodified save_keeps_passwords login_keeps_passwords
        logout_keeps_passwords forgotPassword_keeps_passwords)

theorem C9_save_without_password_keeps_hash_witness:
  "\<not> isModified (set_lastLogin (hydrate ada) (Some 1000)) P_password
   \<and> pre_save_password 3 (set_lastLogin (hydrate ada) (Some 1000)) = set_lastLogin (hydrate ada) (Some 1000)
   \<and> fst (save 3 [ada, bob] (set_lastLogin (hydrate ada) (Some 1000))) = [ada\<lparr>lastLogin := Some 1000\<rparr>, bob]
   \<and> map password (fst (save 3 [ada, bob] (set_lastLogin (hydrate ada) (Some 1000)))) = map password [ada, bob]"
proof -
  let ?d = "set_lastLogin (hydrate ada) (Some 1000)"
  have h: "\<not> isModified ?d P_password"
    by (simp add: isModified_def set_lastLogin_def hydrate_def)
  have s: "fst (save 3 [ada, bob] ?d) = [ada\<lparr>lastLogin := Some 1000\<rparr>, bob]"
    by (simp add: fst_save pre_save_password_unmodified[OF h])
       (simp add: updateOne_def set_lastLogin_def hydrate_def write_paths_def example_defs)
  from C9_save_without_password_keeps_hash[of ?d 3 "[ada, bob]"] h
  have "pre_save_password 3 ?d = ?d"
    and "map password (fst (save 3 [ada, bob] ?d)) = map password [ada, bob]"
    by blast+
  with h s show ?thesis by blast
qed

subsection \<open>What the handlers write\<close>

lemma findById_of_member: "u \<in> set st \<Longrightarrow> \<exists>d. findById st (Some (user_id u)) = Some d"
  by (cases "findById st (Some (user_id u))") (auto simp: findById_def findOne_None_iff)

lemma write_paths_fun: "write_paths src ps = (\<lambda>d. foldr (write_path src) ps d)"
  by (rule ext) (simp add: write_paths_def)

lemma resetPassword_effect:
  "resetPassword e rnd st now tok pw =
     (case verifyPasswordResetToken e now tok of
        Inl err \<Rightarrow> (Inl (AppError ''Invalid or expired reset token'' 400), st)
      | Inr decoded \<Rightarrow>
          (case findOne (reset_query tok now) st of
             None \<Rightarrow> (Inl (AppError ''Invalid or expired reset token'' 400), st)
           | Some u \<Rightarrow>
               (Inr (json 200 ''Password reset successfully''),
                updateOne st (user_id u)
                  (\<lambda>d. d\<lparr>password := Some (Bcrypt (12, rnd) (Plain pw)), passwordResetToken := None,
                         passwordResetExpires := None, refreshTokens := []\<rparr>))))"
  by (simp add: resetPassword_def Let_def split_beta fst_save write_paths_fun comp_def pre_save_password_def
        isModified_def set_password_def set_passwordResetToken_def set_passwordResetExpires_def
        set_refreshTokens_def hydrate_def deselect_password_def bcrypt_hash_def bcrypt_genSalt_def
      split: sum.splits option.splits)

lemma changePassword_effect:
  "changePassword rnd st req_user cur new =
     (case findById st (Some (user_id req_user)) of
        None \<Rightarrow> (Inl (AppError ''User not found'' 404), st)
      | Some u \<Rightarrow>
          if \<not> comparePassword u cur then (Inl (AppError ''Current password is incorrect'' 400), st)
          else if comparePassword u new
          then (Inl (AppError ''New password must be different from current password'' 400), st)
          else (Inr (json 200 ''Password changed successfully. Please log in again.''),
                updateOne st (user_id u)
                  (\<lambda>d. d\<lparr>password := Some (Bcrypt (12, rnd) (Plain new)), refreshTokens := []\<rparr>)))"
  by (simp add: changePassword_def Let_def split_beta fst_save write_paths_fun comp_def pre_save_password_def
        isModified_def set_password_def set_refreshTokens_def hydrate_def bcrypt_hash_def
        bcrypt_genSalt_def
      split: option.splits)

lemma forgotPassword_effect:
  "findOne (\<lambda>u. email u = em) st = Some u \<Longrightarrow>
   snd (forgotPassword e rnd st now em) =
     updateOne st (user_id u)
       (\<lambda>d. d\<lparr>passwordResetToken := Some (generatePasswordResetToken e now),
              passwordResetExpires := Some (now + 60 * 60 * 1000)\<rparr>)"
  by (simp add: forgotPassword_def Let_def split_beta fst_save write_paths_fun comp_def pre_save_password_def
        isModified_def set_passwordResetToken_def set_passwordResetExpires_def hydrate_def
        deselect_password_def)

lemma logout_effect:
  "findOne (\<lambda>u. list_ex (\<lambda>tokenObj. token tokenObj = rt) (refreshTokens u)) st = Some h \<Longrightarrow>
   \<not> falsy rt \<Longrightarrow>
   snd (logout rnd st (Some rt)) =
     updateOne st (user_id h)
       (\<lambda>d. d\<lparr>refreshTokens := filter (\<lambda>tokenObj. token tokenObj \<noteq> rt) (refreshTokens h)\<rparr>)"
  by (simp add: logout_def Let_def fst_save write_paths_fun comp_def pre_save_password_def
        isModified_def set_refreshTokens_def hydrate_def deselect_password_def)

subsection \<open>The examples are states the handlers produce\<close>

lemma login_example:
  "snd (login env0 0 [ada, bob] 1000 ''ada@x.com'' ''Abcdef1!'') = [ada_logged_in, bob]"
  by (simp add: login_def model_defs token_defs example_defs Let_def)

lemma forgot_example:
  "snd (forgotPassword env0 0 [ada, bob] 1000 ''ada@x.com'') = [ada_forgot, bob]"
  "snd (forgotPassword env0 0 [ada_forgot, bob] 1000 ''bob@x.com'') = [ada_forgot, bob_forgot]"
  "snd (forgotPassword env0 0 [ada_logged_in, bob] 1000 ''ada@x.com'') = [ada_both, bob]"
  by (simp_all add: forgotPassword_def model_defs token_defs example_defs Let_def)

lemma refresh_example:
  "refresh env0 [ada_both, bob] 5000 (Some ada_rt) =
     Inr ((json 200 ''Token refreshed successfully'')\<lparr>data_token := Some (generateToken env0 1 5000)\<rparr>)"
  "refresh env0 [ada_logged_in, bob] 5000 (Some ada_rt) =
     Inr ((json 200 ''Token refreshed successfully'')\<lparr>data_token := Some (generateToken env0 1 5000)\<rparr>)"
  by (simp_all add: refresh_def model_defs token_defs example_defs)

lemma reset_example:
  "resetPassword env0 3 [ada_forgot, bob_forgot] 2000 reset_tok ''Newpass1'' =
     (Inr (json 200 ''Password reset successfully''),
      [ada\<lparr>password := Some (Bcrypt (12, 3) (Plain ''Newpass1''))\<rparr>, bob_forgot])"
  "resetPassword env0 4 [ada\<lparr>password := Some (Bcrypt (12, 3) (Plain ''Newpass1''))\<rparr>, bob_forgot] 3000
       reset_tok ''Newpass2'' =
     (Inr (json 200 ''Password reset successfully''),
      [ada\<lparr>password := Some (Bcrypt (12, 3) (Plain ''Newpass1''))\<rparr>,
       bob\<lparr>password := Some (Bcrypt (12, 4) (Plain ''Newpass2''))\<rparr>])"
  "resetPassword env0 3 [ada_both, bob] 2000 reset_tok ''Newpass1'' =
     (Inr (json 200 ''Password reset successfully''),
      [ada\<lparr>lastLogin := Some 1000, password := Some (Bcrypt (12, 3) (Plain ''Newpass1''))\<rparr>, bob])"
  by (simp_all add: resetPassword_effect reset_query_def model_defs token_defs example_defs)

lemma change_example:
  "changePassword 5 [ada_both, bob] (deselect_password ada_both) ''Abcdef1!'' ''Newpass1'' =
     (Inr (json 200 ''Password changed successfully. Please log in again.''),
      [ada_forgot\<lparr>lastLogin := Some 1000, password := Some (Bcrypt (12, 5) (Plain ''Newpass1''))\<rparr>, bob])"
  by (simp add: changePassword_effect model_defs token_defs example_defs)

subsection \<open>Refresh and logout\<close>

lemma verifyRefreshToken_not_falsy: "verifyRefreshToken e now rt = Inr d \<Longrightarrow> \<not> falsy rt"
  by (auto simp: verifyRefreshToken_def jwt_verify_def falsy_def split: jwt.splits)

lemma refresh_unlisted:
  assumes "verifyRefreshToken e now rt = Inr d" and "findById st (userId d) = Some u"
    and "\<not> list_ex (\<lambda>tokenObj. token tokenObj = rt) (refreshTokens u)"
  shows "refresh e st now (Some rt) = Inl (AppError ''Invalid refresh token'' 401)"
  using assms verifyRefreshToken_not_falsy[OF assms(1)] by (simp add: refresh_def)

lemma refresh_generated:
  assumes "findById st (Some i) = Some u"
    and "\<not> list_ex (\<lambda>tokenObj. token tokenObj = generateRefreshToken e i t0) (refreshTokens u)"
  shows "refresh e st now (Some (generateRefreshToken e i t0)) =
     Inl (if now div 1000 \<ge> t0 div 1000 + jwt_refresh_expire e then TokenExpiredError
          else AppError ''Invalid refresh token'' 401)"
  using assms
  by (simp add: refresh_def falsy_def generateRefreshToken_def jwt_sign_def verifyRefreshToken_def
        jwt_verify_def)

text \<open>
  Claim C7. A refresh token that verifies as a refresh token of an existing account but
  is not in that account's refresh-token set is refused with status 401; so is, in
  particular, a token that logout has just removed from its account's set.
\<close>

theorem C7_unlisted_refresh_token_unauthorized:
  "(verifyRefreshToken e now rt = Inr d \<and> findById st (userId d) = Some u
      \<and> \<not> list_ex (\<lambda>tokenObj. token tokenObj = rt) (refreshTokens u)
     \<longrightarrow> refresh e st now (Some rt) = Inl (AppError ''Invalid refresh token'' 401))
   \<and> (findOne (\<lambda>u. list_ex (\<lambda>tokenObj. token tokenObj = rt) (refreshTokens u)) st = Some h
      \<and> verifyRefreshToken e now' rt = Inr d' \<and> userId d' = Some (user_id h)
     \<longrightarrow> refresh e (snd (logout rnd st (Some rt))) now' (Some rt) =
           Inl (AppError ''Invalid refresh token'' 401))"
proof (intro conjI impI)
  assume "verifyRefreshToken e now rt = Inr d \<and> findById st (userId d) = Some u
      \<and> \<not> list_ex (\<lambda>tokenObj. token tokenObj = rt) (refreshTokens u)"
  then show "refresh e st now (Some rt) = Inl (AppError ''Invalid refresh token'' 401)"
    by (simp add: refresh_unlisted)
next
  assume a: "findOne (\<lambda>u. list_ex (\<lambda>tokenObj. token tokenObj = rt) (refreshTokens u)) st = Some h
      \<and> verifyRefreshToken e now' rt = Inr d' \<and> userId d' = Some (user_id h)"
  then have v: "verifyRefreshToken e now' rt = Inr d'" and s: "userId d' = Some (user_id h)"
    and f: "findOne (\<lambda>u. list_ex (\<lambda>tokenObj. token tokenObj = rt) (refreshTokens u)) st = Some h"
    by simp_all
  from f have "h \<in> set st" by (simp add: findOne_Some_in_set)
  then obtain x where x: "findById st (Some (user_id h)) = Some x"
    using findById_of_member by blast
  let ?st' = "snd (logout rnd st (Some rt))"
  have "findById ?st' (Some (user_id h)) =
      Some (x\<lparr>refreshTokens := filter (\<lambda>tokenObj. token tokenObj \<noteq> rt) (refreshTokens h)\<rparr>)"
    by (simp add: logout_effect[OF f verifyRefreshToken_not_falsy[OF v]] findById_updateOne[OF _ x])
  then show "refresh e ?st' now' (Some rt) = Inl (AppError ''Invalid refresh token'' 401)"
    using v s by (intro refresh_unlisted[OF v]) (auto simp: list_ex_iff)
qed

theorem C7_unlisted_refresh_token_unauthorized_witness:
  "verifyRefreshToken env0 5000 ada_rt = Inr (Payload (Some 1) (Some ''refresh'') None)
   \<and> findById [ada, bob] (userId (Payload (Some 1) (Some ''refresh'') None)) = Some ada
   \<and> \<not> list_ex (\<lambda>tokenObj. token tokenObj = ada_rt) (refreshTokens ada)
   \<and> refresh env0 [ada, bob] 5000 (Some ada_rt) = Inl (AppError ''Invalid refresh token'' 401)
   \<and> findOne (\<lambda>u. list_ex (\<lambda>tokenObj. token tokenObj = ada_rt) (refreshTokens u)) [ada_logged_in, bob] =
       Some ada_logged_in
   \<and> userId (Payload (Some 1) (Some ''refresh'') None) = Some (user_id ada_logged_in)
   \<and> refresh env0 (snd (logout 0 [ada_logged_in, bob] (Some ada_rt))) 5000 (Some ada_rt) =
       Inl (AppError ''Invalid refresh token'' 401)"
proof -
  let ?d = "Payload (Some 1) (Some ''refresh'') None"
  have h1: "verifyRefreshToken env0 5000 ada_rt = Inr ?d"
    by (simp add: token_defs example_defs)
  have h2: "findById [ada, bob] (userId ?d) = Some ada"
    by (simp add: findById_def findOne_def example_defs)
  have h3: "\<not> list_ex (\<lambda>tokenObj. token tokenObj = ada_rt) (refreshTokens ada)"
    by (simp add: example_defs)
  have h4: "findOne (\<lambda>u. list_ex (\<lambda>tokenObj. token tokenObj = ada_rt) (refreshTokens u)) [ada_logged_in, bob] =
       Some ada_logged_in"
    by (simp add: findOne_def example_defs)
  have h5: "userId ?d = Some (user_id ada_logged_in)"
    by (simp add: example_defs)
  note t = C7_unlisted_refresh_token_unauthorized[where e = env0 and now = 5000 and rt = ada_rt
      and d = ?d and st = "[ada, bob]" and u = ada and h = ada_logged_in and now' = 5000 and d' = ?d
      and rnd = 0]
  have c1: "refresh env0 [ada, bob] 5000 (Some ada_rt) = Inl (AppError ''Invalid refresh token'' 401)"
    using t h1 h2 h3 by blast
  have "findOne (\<lambda>u. list_ex (\<lambda>tokenObj. token tokenObj = ada_rt) (refreshTokens u)) [ada, bob] = None"
    by (simp add: findOne_def example_defs)
  note t' = C7_unlisted_refresh_token_unauthorized[where e = env0 and now = 5000 and rt = ada_rt
      and d = ?d and st = "[ada_logged_in, bob]" and u = ada and h = ada_logged_in and now' = 5000
      and d' = ?d and rnd = 0]
  have c2: "refresh env0 (snd (logout 0 [ada_logged_in, bob] (Some ada_rt))) 5000 (Some ada_rt) =
       Inl (AppError ''Invalid refresh token'' 401)"
    using t' h1 h4 h5 by blast
  from h1 h2 h3 c1 h4 h5 c2 show ?thesis by blast
qed

subsection \<open>Password changes\<close>

lemma empty_set_refresh_fails:
  assumes "findById st (Some i) = Some u" and "refreshTokens u = []"
  shows "(\<forall>rt now d. verifyRefreshToken e now rt = Inr d \<and> userId d = Some i \<longrightarrow>
            refresh e st now (Some rt) = Inl (AppError ''Invalid refresh token'' 401))
       \<and> (\<forall>t0 now. isl (refresh e st now (Some (generateRefreshToken e i t0))))"
proof (intro conjI allI impI)
  fix rt now d
  assume "verifyRefreshToken e now rt = Inr d \<and> userId d = Some i"
  then show "refresh e st now (Some rt) = Inl (AppError ''Invalid refresh token'' 401)"
    using assms by (intro refresh_unlisted[where d = d and u = u]) simp_all
next
  fix t0 now
  show "isl (refresh e st now (Some (generateRefreshToken e i t0)))"
    using assms by (simp add: refresh_generated[where u = u])
qed

text \<open>
  Claim C5. Every successful password change, by reset-password or by change-password,
  leaves the account with an empty refresh-token set, so that every refresh token of the
  account fails the refresh operation afterwards: with status 401 when it still verifies,
  and with an error in any case when it is one the server issued to the account.
\<close>

theorem C5_password_change_clears_refresh_tokens:
  "(resetPassword e rnd st now tok newPassword = (Inr r, st') \<longrightarrow>
      (\<exists>u u'. findOne (reset_query tok now) st = Some u
         \<and> findById st' (Some (user_id u)) = Some u' \<and> refreshTokens u' = []
         \<and> (\<forall>rt now' d. verifyRefreshToken e now' rt = Inr d \<and> userId d = Some (user_id u) \<longrightarrow>
               refresh e st' now' (Some rt) = Inl (AppError ''Invalid refresh token'' 401))
         \<and> (\<forall>t0 now'. isl (refresh e st' now' (Some (generateRefreshToken e (user_id u) t0))))))
   \<and> (changePassword rndc stc req_user cur new = (Inr rc, stc') \<longrightarrow>
      (\<exists>u'. findById stc' (Some (user_id req_user)) = Some u' \<and> refreshTokens u' = []
         \<and> (\<forall>rt now' d. verifyRefreshToken e now' rt = Inr d \<and> userId d = Some (user_id req_user) \<longrightarrow>
               refresh e stc' now' (Some rt) = Inl (AppError ''Invalid refresh token'' 401))
         \<and> (\<forall>t0 now'. isl (refresh e stc' now' (Some (generateRefreshToken e (user_id req_user) t0))))))"
proof (intro conjI impI)
  assume a: "resetPassword e rnd st now tok newPassword = (Inr r, st')"
  then obtain u where u: "findOne (reset_query tok now) st = Some u"
    and st': "st' = updateOne st (user_id u)
        (\<lambda>d. d\<lparr>password := Some (Bcrypt (12, rnd) (Plain newPassword)), passwordResetToken := None,
               passwordResetExpires := None, refreshTokens := []\<rparr>)"
    by (auto simp: resetPassword_effect split: sum.splits option.splits)
  from u have "u \<in> set st" by (simp add: findOne_Some_in_set)
  then obtain x where x: "findById st (Some (user_id u)) = Some x"
    using findById_of_member by blast
  let ?u' = "x\<lparr>password := Some (Bcrypt (12, rnd) (Plain newPassword)), passwordResetToken := None,
               passwordResetExpires := None, refreshTokens := []\<rparr>"
  have f: "findById st' (Some (user_id u)) = Some ?u'"
    unfolding st' by (simp add: findById_updateOne[OF _ x])
  have e: "refreshTokens ?u' = []" by simp
  show "\<exists>u u'. findOne (reset_query tok now) st = Some u
         \<and> findById st' (Some (user_id u)) = Some u' \<and> refreshTokens u' = []
         \<and> (\<forall>rt now' d. verifyRefreshToken e now' rt = Inr d \<and> userId d = Some (user_id u) \<longrightarrow>
               refresh e st' now' (Some rt) = Inl (AppError ''Invalid refresh token'' 401))
         \<and> (\<forall>t0 now'. isl (refresh e st' now' (Some (generateRefreshToken e (user_id u) t0))))"
    using u f e empty_set_refresh_fails[OF f e, of e] by blast
next
  assume a: "changePassword rndc stc req_user cur new = (Inr rc, stc')"
  then obtain u where u: "findById stc (Some (user_id req_user)) = Some u"
    and st': "stc' = updateOne stc (user_id u)
        (\<lambda>d. d\<lparr>password := Some (Bcrypt (12, rndc) (Plain new)), refreshTokens := []\<rparr>)"
    by (auto simp: changePassword_effect split: option.splits if_splits)
  have i: "user_id u = user_id req_user" using u by (rule findById_Some_id)
  let ?u' = "u\<lparr>password := Some (Bcrypt (12, rndc) (Plain new)), refreshTokens := []\<rparr>"
  have f: "findById stc' (Some (user_id req_user)) = Some ?u'"
    unfolding st' by (simp add: findById_updateOne[OF _ u] i)
  have e: "refreshTokens ?u' = []" by simp
  show "\<exists>u'. findById stc' (Some (user_id req_user)) = Some u' \<and> refreshTokens u' = []
         \<and> (\<forall>rt now' d. verifyRefreshToken e now' rt = Inr d \<and> userId d = Some (user_id req_user) \<longrightarrow>
               refresh e stc' now' (Some rt) = Inl (AppError ''Invalid refresh token'' 401))
         \<and> (\<forall>t0 now'. isl (refresh e stc' now' (Some (generateRefreshToken e (user_id req_user) t0))))"
    using f e empty_set_refresh_fails[OF f e, of e] by blast
qed

theorem C5_password_change_clears_refresh_tokens_witness:
  "resetPassword env0 3 [ada_both, bob] 2000 reset_tok ''Newpass1'' =
     (Inr (json 200 ''Password reset successfully''),
      [ada\<lparr>lastLogin := Some 1000, password := Some (Bcrypt (12, 3) (Plain ''Newpass1''))\<rparr>, bob])
   \<and> refresh env0 [ada\<lparr>lastLogin := Some 1000, password := Some (Bcrypt (12, 3) (Plain ''Newpass1''))\<rparr>, bob]
        5000 (Some ada_rt) = Inl (AppError ''Invalid refresh token'' 401)
   \<and> changePassword 5 [ada_both, bob] (deselect_password ada_both) ''Abcdef1!'' ''Newpass1'' =
     (Inr (json 200 ''Password changed successfully. Please log in again.''),
      [ada_forgot\<lparr>lastLogin := Some 1000, password := Some (Bcrypt (12, 5) (Plain ''Newpass1''))\<rparr>, bob])
   \<and> refresh env0 [ada_forgot\<lparr>lastLogin := Some 1000, password := Some (Bcrypt (12, 5) (Plain ''Newpass1''))\<rparr>, bob]
        5000 (Some ada_rt) = Inl (AppError ''Invalid refresh token'' 401)"
proof -
  let ?d = "Payload (Some 1) (Some ''refresh'') None"
  let ?st' = "[ada\<lparr>lastLogin := Some 1000, password := Some (Bcrypt (12, 3) (Plain ''Newpass1''))\<rparr>, bob]"
  let ?st2' = "[ada_forgot\<lparr>lastLogin := Some 1000, password := Some (Bcrypt (12, 5) (Plain ''Newpass1''))\<rparr>, bob]"
  have v: "verifyRefreshToken env0 5000 ada_rt = Inr ?d"
    by (simp add: token_defs example_defs)
  have q: "findOne (reset_query reset_tok 2000) [ada_both, bob] = Some ada_both"
    by (simp add: findOne_def reset_query_def example_defs)
  have i: "user_id ada_both = 1" "user_id (deselect_password ada_both) = 1"
    by (simp_all add: deselect_password_def example_defs)
  note t = C5_password_change_clears_refresh_tokens[where e = env0 and rnd = 3
      and st = "[ada_both, bob]" and now = 2000 and tok = reset_tok and newPassword = "''Newpass1''"
      and r = "json 200 ''Password reset successfully''" and st' = ?st'
      and rndc = 5 and stc = "[ada_both, bob]" and req_user = "deselect_password ada_both"
      and cur = "''Abcdef1!''" and new = "''Newpass1''"
      and rc = "json 200 ''Password changed successfully. Please log in again.''" and stc' = ?st2']
  from t reset_example(3) obtain u where "findOne (reset_query reset_tok 2000) [ada_both, bob] = Some u"
    and a: "\<forall>rt now' d. verifyRefreshToken env0 now' rt = Inr d \<and> userId d = Some (user_id u) \<longrightarrow>
               refresh env0 ?st' now' (Some rt) = Inl (AppError ''Invalid refresh token'' 401)"
    by blast
  with q have "user_id u = 1" by (simp add: i)
  with a v have c1: "refresh env0 ?st' 5000 (Some ada_rt) = Inl (AppError ''Invalid refresh token'' 401)"
    by simp
  from t change_example
  have "\<forall>rt now' d. verifyRefreshToken env0 now' rt = Inr d \<and> userId d = Some (user_id (deselect_password ada_both)) \<longrightarrow>
               refresh env0 ?st2' now' (Some rt) = Inl (AppError ''Invalid refresh token'' 401)"
    by blast
  with v have c2: "refresh env0 ?st2' 5000 (Some ada_rt) = Inl (AppError ''Invalid refresh token'' 401)"
    by (simp add: i)
  from reset_example(3) c1 change_example c2 show ?thesis by blast
qed

lemma reset_query_updateOne_None:
  assumes "\<And>d. passwordResetToken (f d) = None"
    and "\<forall>v\<in>set st. passwordResetToken v = Some tok \<longrightarrow> user_id v = i"
  shows "findOne (reset_query tok now) (updateOne st i f) = None"
  using assms by (auto simp: findOne_None_iff updateOne_def reset_query_def)

text \<open>
  What the handler's clearing achieves: a successful reset-password removes the stored
  reset token and its expiry from the account it resets, and a second reset-password
  with the same token fails with status 400 when no other account stores that value.
\<close>

lemma resetPassword_clears_token:
  assumes "resetPassword e rnd st now tok newPassword = (Inr r, st')"
  shows "\<exists>u u'. findOne (reset_query tok now) st = Some u
      \<and> findById st' (Some (user_id u)) = Some u'
      \<and> passwordResetToken u' = None \<and> passwordResetExpires u' = None
      \<and> ((\<forall>v\<in>set st. passwordResetToken v = Some tok \<longrightarrow> user_id v = user_id u) \<longrightarrow>
           (\<forall>rnd' now' pw'. resetPassword e rnd' st' now' tok pw' =
              (Inl (AppError ''Invalid or expired reset token'' 400), st')))"
proof -
  from assms obtain u where u: "findOne (reset_query tok now) st = Some u"
    and st': "st' = updateOne st (user_id u)
        (\<lambda>d. d\<lparr>password := Some (Bcrypt (12, rnd) (Plain newPassword)), passwordResetToken := None,
               passwordResetExpires := None, refreshTokens := []\<rparr>)"
    by (auto simp: resetPassword_effect split: sum.splits option.splits)
  from u have "u \<in> set st" by (simp add: findOne_Some_in_set)
  then obtain x where x: "findById st (Some (user_id u)) = Some x"
    using findById_of_member by blast
  let ?u' = "x\<lparr>password := Some (Bcrypt (12, rnd) (Plain newPassword)), passwordResetToken := None,
               passwordResetExpires := None, refreshTokens := []\<rparr>"
  have f: "findById st' (Some (user_id u)) = Some ?u'"
    unfolding st' by (simp add: findById_updateOne[OF _ x])
  have again: "resetPassword e rnd' st' now' tok pw' =
              (Inl (AppError ''Invalid or expired reset token'' 400), st')"
    if "\<forall>v\<in>set st. passwordResetToken v = Some tok \<longrightarrow> user_id v = user_id u" for rnd' now' pw'
  proof -
    have "findOne (reset_query tok now') st' = None"
      unfolding st' using that by (intro reset_query_updateOne_None) simp_all
    then show ?thesis by (simp add: resetPassword_effect split: sum.splits)
  qed
  show ?thesis
    using u f again by (intro exI[of _ u] exI[of _ ?u']) simp
qed

lemma resetPassword_clears_token_example:
  "resetPassword env0 3 [ada_both, bob] 2000 reset_tok ''Newpass1'' =
     (Inr (json 200 ''Password reset successfully''),
      [ada\<lparr>lastLogin := Some 1000, password := Some (Bcrypt (12, 3) (Plain ''Newpass1''))\<rparr>, bob])
   \<and> findOne (reset_query reset_tok 2000) [ada_both, bob] = Some ada_both
   \<and> resetPassword env0 4
        [ada\<lparr>lastLogin := Some 1000, password := Some (Bcrypt (12, 3) (Plain ''Newpass1''))\<rparr>, bob]
        3000 reset_tok ''Newpass2'' =
     (Inl (AppError ''Invalid or expired reset token'' 400),
      [ada\<lparr>lastLogin := Some 1000, password := Some (Bcrypt (12, 3) (Plain ''Newpass1''))\<rparr>, bob])"
proof -
  let ?st' = "[ada\<lparr>lastLogin := Some 1000, password := Some (Bcrypt (12, 3) (Plain ''Newpass1''))\<rparr>, bob]"
  have q: "findOne (reset_query reset_tok 2000) [ada_both, bob] = Some ada_both"
    by (simp add: findOne_def reset_query_def example_defs)
  from resetPassword_clears_token[OF reset_example(3)] q
  have "(\<forall>v\<in>set [ada_both, bob]. passwordResetToken v = Some reset_tok \<longrightarrow> user_id v = user_id ada_both) \<longrightarrow>
           (\<forall>rnd' now' pw'. resetPassword env0 rnd' ?st' now' reset_tok pw' =
              (Inl (AppError ''Invalid or expired reset token'' 400), ?st'))"
    by auto
  moreover have "\<forall>v\<in>set [ada_both, bob]. passwordResetToken v = Some reset_tok \<longrightarrow> user_id v = user_id ada_both"
    by (simp add: example_defs)
  ultimately have "resetPassword env0 4 ?st' 3000 reset_tok ''Newpass2'' =
              (Inl (AppError ''Invalid or expired reset token'' 400), ?st')"
    by blast
  with reset_example(3) q show ?thesis by blast
qed

text \<open>
  Claim C6. The password-reset token is single-use: after a successful reset-password
  with a token, a second reset-password with the same token fails with status 400. The
  code misses this: \<open>generatePasswordResetToken\<close> puts no account id in the token (its
  sibling \<open>generateEmailVerificationToken\<close> does), so two forgot-password requests
  handled at the same clock reading store the same token value on two accounts. The
  first reset with it succeeds on the first account, and the second reset with the same
  token succeeds again, on the other account.
\<close>

theorem C6_second_reset_succeeds:
  "snd (forgotPassword env0 0 [ada, bob] 1000 ''ada@x.com'') = [ada_forgot, bob]
   \<and> snd (forgotPassword env0 0 [ada_forgot, bob] 1000 ''bob@x.com'') = [ada_forgot, bob_forgot]
   \<and> resetPassword env0 3 [ada_forgot, bob_forgot] 2000 reset_tok ''Newpass1'' =
     (Inr (json 200 ''Password reset successfully''),
      [ada\<lparr>password := Some (Bcrypt (12, 3) (Plain ''Newpass1''))\<rparr>, bob_forgot])
   \<and> resetPassword env0 4 [ada\<lparr>password := Some (Bcrypt (12, 3) (Plain ''Newpass1''))\<rparr>, bob_forgot] 3000
       reset_tok ''Newpass2'' =
     (Inr (json 200 ''Password reset successfully''),
      [ada\<lparr>password := Some (Bcrypt (12, 3) (Plain ''Newpass1''))\<rparr>,
       bob\<lparr>password := Some (Bcrypt (12, 4) (Plain ''Newpass2''))\<rparr>])
   \<and> fst (resetPassword env0 4 [ada\<lparr>password := Some (Bcrypt (12, 3) (Plain ''Newpass1''))\<rparr>, bob_forgot] 3000
       reset_tok ''Newpass2'') \<noteq> Inl (AppError ''Invalid or expired reset token'' 400)"
  by (simp add: forgot_example reset_example)

text \<open>
  Claim C10. A successful change-password empties the refresh-token set and leaves the
  stored reset token and its expiry as they were; a reset token stored before the change
  therefore still resets the password afterwards, as long as it verifies and its stored
  expiry is in the future. For a token that forgot-password issued at time \<open>T\<close> this is
  until the token's own expiry, one hour after its \<open>iat\<close> second, which is never later
  than the stored expiry \<open>T\<close> + 1 hour. When no other account stores the token, the
  password reset is the one of this account.
\<close>

theorem C10_change_password_keeps_reset_token:
  assumes ok: "changePassword rnd st req_user cur new = (Inr r, st')"
    and u: "findById st (Some (user_id req_user)) = Some u"
  shows "\<exists>u'. findById st' (Some (user_id req_user)) = Some u'
      \<and> refreshTokens u' = []
      \<and> passwordResetToken u' = passwordResetToken u
      \<and> passwordResetExpires u' = passwordResetExpires u
      \<and> (\<forall>e now' tok t d rnd' pw'.
            passwordResetToken u = Some tok \<and> passwordResetExpires u = Some t \<and> now' < t
            \<and> verifyPasswordResetToken e now' tok = Inr d \<longrightarrow>
            fst (resetPassword e rnd' st' now' tok pw') = Inr (json 200 ''Password reset successfully'')
            \<and> ((\<forall>v\<in>set st. passwordResetToken v = Some tok \<longrightarrow> user_id v = user_id u) \<longrightarrow>
                 map_option password (findById (snd (resetPassword e rnd' st' now' tok pw')) (Some (user_id u))) =
                   Some (Some (Bcrypt (12, rnd') (Plain pw')))))
      \<and> (\<forall>e T now' rnd' pw'.
            passwordResetToken u = Some (generatePasswordResetToken e T)
            \<and> passwordResetExpires u = Some (T + 60 * 60 * 1000)
            \<and> now' div 1000 < T div 1000 + 60 * 60 \<longrightarrow>
            fst (resetPassword e rnd' st' now' (generatePasswordResetToken e T) pw') =
              Inr (json 200 ''Password reset successfully''))"
proof -
  let ?G = "\<lambda>d. d\<lparr>password := Some (Bcrypt (12, rnd) (Plain new)), refreshTokens := []\<rparr>"
  from ok u have st': "st' = updateOne st (user_id u) ?G"
    by (auto simp: changePassword_effect split: if_splits)
  have i: "user_id u = user_id req_user" using u by (rule findById_Some_id)
  have f: "findById st' (Some (user_id req_user)) = Some (?G u)"
    unfolding st' by (simp add: findById_updateOne[OF _ u] i)
  have mem: "?G u \<in> set st'"
    using f by (auto simp: findById_def dest: findOne_Some_in_set)
  have reset: "fst (resetPassword e rnd' st' now' tok pw') = Inr (json 200 ''Password reset successfully'')
            \<and> ((\<forall>v\<in>set st. passwordResetToken v = Some tok \<longrightarrow> user_id v = user_id u) \<longrightarrow>
                 map_option password (findById (snd (resetPassword e rnd' st' now' tok pw')) (Some (user_id u))) =
                   Some (Some (Bcrypt (12, rnd') (Plain pw'))))"
    if h: "passwordResetToken u = Some tok \<and> passwordResetExpires u = Some t \<and> now' < t
            \<and> verifyPasswordResetToken e now' tok = Inr d" for e now' tok t d rnd' pw'
  proof -
    have q: "reset_query tok now' (?G u)" using h by (simp add: reset_query_def)
    with mem have "findOne (reset_query tok now') st' \<noteq> None"
      by (auto simp: findOne_None_iff)
    then obtain w where w: "findOne (reset_query tok now') st' = Some w" by auto
    let ?F = "\<lambda>d. d\<lparr>password := Some (Bcrypt (12, rnd') (Plain pw')), passwordResetToken := None,
               passwordResetExpires := None, refreshTokens := []\<rparr>"
    have res: "resetPassword e rnd' st' now' tok pw' =
        (Inr (json 200 ''Password reset successfully''), updateOne st' (user_id w) ?F)"
      using h w by (simp add: resetPassword_effect)
    have "map_option password (findById (snd (resetPassword e rnd' st' now' tok pw')) (Some (user_id u))) =
                   Some (Some (Bcrypt (12, rnd') (Plain pw')))"
      if only: "\<forall>v\<in>set st. passwordResetToken v = Some tok \<longrightarrow> user_id v = user_id u"
    proof -
      from w have "w \<in> set st'" and "passwordResetToken w = Some tok"
        by (auto dest: findOne_Some_in_set simp: reset_query_def)
      then have "user_id w = user_id u"
        using only unfolding st' updateOne_def by (auto split: if_splits)
      then have wi: "user_id w = user_id req_user" by (simp add: i)
      have "findById (updateOne st' (user_id w) ?F) (Some (user_id req_user)) = Some (?F (?G u))"
        by (simp add: findById_updateOne[OF _ f] wi)
      then show ?thesis by (simp add: res i)
    qed
    with res show ?thesis by simp
  qed
  have issued: "fst (resetPassword e rnd' st' now' (generatePasswordResetToken e T) pw') =
              Inr (json 200 ''Password reset successfully'')"
    if h: "passwordResetToken u = Some (generatePasswordResetToken e T)
            \<and> passwordResetExpires u = Some (T + 60 * 60 * 1000)
            \<and> now' div 1000 < T div 1000 + 60 * 60" for e T now' rnd' pw'
  proof -
    from h have "now' div 1000 < T div 1000 + 60 * 60" by simp
    then have "now' < (T div 1000 + 60 * 60) * 1000"
      by (simp only: div_less_iff_less_mult[of 1000, simplified])
    moreover have "T div 1000 * 1000 \<le> T" by simp
    ultimately have lt: "now' < T + 60 * 60 * 1000" by simp
    have v: "verifyPasswordResetToken e now' (generatePasswordResetToken e T) =
        Inr (Payload None (Some ''password-reset'') (Some T))"
      using h by (simp add: verifyPasswordResetToken_def generatePasswordResetToken_def jwt_sign_def
            jwt_verify_def)
    from reset[of "generatePasswordResetToken e T" "T + 60 * 60 * 1000" now' e _ rnd' pw'] h lt v
    show ?thesis by blast
  qed
  have c: "refreshTokens (?G u) = [] \<and> passwordResetToken (?G u) = passwordResetToken u
      \<and> passwordResetExpires (?G u) = passwordResetExpires u"
    by simp
  have A: "\<forall>e now' tok t d rnd' pw'.
            passwordResetToken u = Some tok \<and> passwordResetExpires u = Some t \<and> now' < t
            \<and> verifyPasswordResetToken e now' tok = Inr d \<longrightarrow>
            fst (resetPassword e rnd' st' now' tok pw') = Inr (json 200 ''Password reset successfully'')
            \<and> ((\<forall>v\<in>set st. passwordResetToken v = Some tok \<longrightarrow> user_id v = user_id u) \<longrightarrow>
                 map_option password (findById (snd (resetPassword e rnd' st' now' tok pw')) (Some (user_id u))) =
                   Some (Some (Bcrypt (12, rnd') (Plain pw'))))"
    by (intro allI impI) (erule reset)
  have B: "\<forall>e T now' rnd' pw'.
            passwordResetToken u = Some (generatePasswordResetToken e T)
            \<and> passwordResetExpires u = Some (T + 60 * 60 * 1000)
            \<and> now' div 1000 < T div 1000 + 60 * 60 \<longrightarrow>
            fst (resetPassword e rnd' st' now' (generatePasswordResetToken e T) pw') =
              Inr (json 200 ''Password reset successfully'')"
    by (intro allI impI) (erule issued)
  show ?thesis
    by (rule exI[of _ "?G u"]) (intro conjI f A B; simp)
qed

theorem C10_change_password_keeps_reset_token_witness:
  "changePassword 5 [ada_both, bob] (deselect_password ada_both) ''Abcdef1!'' ''Newpass1'' =
     (Inr (json 200 ''Password changed successfully. Please log in again.''),
      [ada_forgot\<lparr>lastLogin := Some 1000, password := Some (Bcrypt (12, 5) (Plain ''Newpass1''))\<rparr>, bob])
   \<and> findById [ada_both, bob] (Some (user_id (deselect_password ada_both))) = Some ada_both
   \<and> passwordResetToken ada_both = Some reset_tok \<and> passwordResetExpires ada_both = Some 3601000
   \<and> (2000 :: nat) < 3601000
   \<and> verifyPasswordResetToken env0 2000 reset_tok = Inr (Payload None (Some ''password-reset'') (Some 1000))
   \<and> fst (resetPassword env0 6
        [ada_forgot\<lparr>lastLogin := Some 1000, password := Some (Bcrypt (12, 5) (Plain ''Newpass1''))\<rparr>, bob]
        2000 reset_tok ''Newpass2'') = Inr (json 200 ''Password reset successfully'')
   \<and> map_option password (findById (snd (resetPassword env0 6
        [ada_forgot\<lparr>lastLogin := Some 1000, password := Some (Bcrypt (12, 5) (Plain ''Newpass1''))\<rparr>, bob]
        2000 reset_tok ''Newpass2'')) (Some (user_id ada_both))) =
       Some (Some (Bcrypt (12, 6) (Plain ''Newpass2'')))
   \<and> passwordResetToken ada_both = Some (generatePasswordResetToken env0 1000)
   \<and> passwordResetExpires ada_both = Some (1000 + 60 * 60 * 1000)
   \<and> (3600999 :: nat) div 1000 < 1000 div 1000 + 60 * 60
   \<and> fst (resetPassword env0 6
        [ada_forgot\<lparr>lastLogin := Some 1000, password := Some (Bcrypt (12, 5) (Plain ''Newpass1''))\<rparr>, bob]
        3600999 (generatePasswordResetToken env0 1000) ''Newpass2'') = Inr (json 200 ''Password reset successfully'')"
proof -
  let ?st' = "[ada_forgot\<lparr>lastLogin := Some 1000, password := Some (Bcrypt (12, 5) (Plain ''Newpass1''))\<rparr>, bob]"
  let ?d = "Payload None (Some ''password-reset'') (Some 1000)"
  have h2: "findById [ada_both, bob] (Some (user_id (deselect_password ada_both))) = Some ada_both"
    by (simp add: findById_def findOne_def deselect_password_def example_defs)
  have h3: "passwordResetToken ada_both = Some reset_tok" "passwordResetExpires ada_both = Some 3601000"
    by (simp_all add: example_defs)
  have h4: "(2000 :: nat) < 3601000" by simp
  have h5: "verifyPasswordResetToken env0 2000 reset_tok = Inr ?d"
    by (simp add: token_defs example_defs)
  have only: "\<forall>v\<in>set [ada_both, bob]. passwordResetToken v = Some reset_tok \<longrightarrow> user_id v = user_id ada_both"
    by (simp add: example_defs)
  have h6: "passwordResetToken ada_both = Some (generatePasswordResetToken env0 1000)"
    "passwordResetExpires ada_both = Some (1000 + 60 * 60 * 1000)"
    by (simp_all add: example_defs)
  have h7: "(3600999 :: nat) div 1000 < 1000 div 1000 + 60 * 60" by simp
  from C10_change_password_keeps_reset_token[OF change_example h2]
  have "\<forall>e T now' rnd' pw'.
            passwordResetToken ada_both = Some (generatePasswordResetToken e T)
            \<and> passwordResetExpires ada_both = Some (T + 60 * 60 * 1000)
            \<and> now' div 1000 < T div 1000 + 60 * 60 \<longrightarrow>
            fst (resetPassword e rnd' ?st' now' (generatePasswordResetToken e T) pw') =
              Inr (json 200 ''Password reset successfully'')"
    by blast
  from this[rule_format, of env0 1000 3600999 6 "''Newpass2''"] h6 h7
  have late: "fst (resetPassword env0 6 ?st' 3600999 (generatePasswordResetToken env0 1000) ''Newpass2'') =
      Inr (json 200 ''Password reset successfully'')"
    by blast
  from C10_change_password_keeps_reset_token[OF change_example h2]
  have "\<forall>e now' tok t d rnd' pw'.
            passwordResetToken ada_both = Some tok \<and> passwordResetExpires ada_both = Some t \<and> now' < t
            \<and> verifyPasswordResetToken e now' tok = Inr d \<longrightarrow>
            fst (resetPassword e rnd' ?st' now' tok pw') = Inr (json 200 ''Password reset successfully'')
            \<and> ((\<forall>v\<in>set [ada_both, bob]. passwordResetToken v = Some tok \<longrightarrow> user_id v = user_id ada_both) \<longrightarrow>
                 map_option password (findById (snd (resetPassword e rnd' ?st' now' tok pw')) (Some (user_id ada_both))) =
                   Some (Some (Bcrypt (12, rnd') (Plain pw'))))"
    by blast
  from this[rule_format, of reset_tok 3601000 2000 env0 ?d 6 "''Newpass2''"] h3 h4 h5 only
  have "fst (resetPassword env0 6 ?st' 2000 reset_tok ''Newpass2'') = Inr (json 200 ''Password reset successfully'')"
    and "map_option password (findById (snd (resetPassword env0 6 ?st' 2000 reset_tok ''Newpass2''))
            (Some (user_id ada_both))) = Some (Some (Bcrypt (12, 6) (Plain ''Newpass2'')))"
    by blast+
  with change_example h2 h3 h4 h5 h6 h7 late show ?thesis by blast
qed

end
